theory Spec2Isabelle
  imports Main
begin

section \<open>Values, dictionaries and errors\<close>

text \<open>
  Python values that the schema model stores: \<open>None\<close>, strings, booleans and references
  to objects (an object is compared by identity, which is equality of references).
  A \<open>dict\<close> keeps insertion order, so it is an association list with distinct keys.
\<close>

type_synonym ref = nat

datatype pyval = PNone | PStr string | PBool bool | PRef ref

type_synonym ('k, 'v) pydict = "('k \<times> 'v) list"

datatype idx_msg = CollectionIndexOutOfRange int | ListIndexOutOfRange

datatype error =
    IllegalOperation
  | SchemaNameError
  | SQLiteEngineError
  | MissingKeyError
  | DuplicateKeyError pyval
  | DuplicateItemError pyval
  | ArgumentError "string list"
  | ConstraintError "string list" string
  | ValueError
  | TypeError
  | AttributeError
  | IndexError idx_msg

text \<open>\<open>k in d\<close>, \<open>d.get(k)\<close>, \<open>d.update({k: v})\<close>, \<open>d.pop(k)\<close>, \<open>d.values()\<close>, \<open>d.keys()\<close>.\<close>

definition dict_contains :: "('k, 'v) pydict \<Rightarrow> 'k \<Rightarrow> bool" where
  "dict_contains d k = (k \<in> set (map fst d))"

definition dict_get :: "('k, 'v) pydict \<Rightarrow> 'k \<Rightarrow> 'v option" where
  "dict_get d k = map_of d k"

fun dict_update :: "('k, 'v) pydict \<Rightarrow> 'k \<Rightarrow> 'v \<Rightarrow> ('k, 'v) pydict" where
  "dict_update [] k v = [(k, v)]"
| "dict_update ((k', v') # d) k v =
     (if k' = k then (k', v) # d else (k', v') # dict_update d k v)"

definition dict_pop :: "('k, 'v) pydict \<Rightarrow> 'k \<Rightarrow> ('k, 'v) pydict" where
  "dict_pop d k = filter (\<lambda>kv. fst kv \<noteq> k) d"

definition dict_values :: "('k, 'v) pydict \<Rightarrow> 'v list" where
  "dict_values d = map snd d"

definition dict_keys :: "('k, 'v) pydict \<Rightarrow> 'k list" where
  "dict_keys d = map fst d"

section \<open>Keyed collections (collections.py, schema.py)\<close>

text \<open>
  The classes of collection. \<open>Collection\<close> is the closed base type; \<open>MixinCollection\<close>
  and its subclasses reopen \<open>insert\<close>. The state of a collection is its \<open>_fields\<close>
  dictionary.
\<close>

datatype ccls = Collection | MixinCollection | Tables | Indexes | Views | Triggers | Columns

definition mutable :: "ccls \<Rightarrow> bool" where
  "mutable c = (c \<noteq> Collection)"

text \<open>
  \<open>xs[i]\<close> on a Python list: a negative index counts from the end, and an index outside
  \<open>-len(xs) .. len(xs) - 1\<close> raises the list's own \<open>IndexError\<close>.
\<close>

definition list_getitem :: "'a list \<Rightarrow> int \<Rightarrow> error + 'a" where
  "list_getitem xs i =
     (if 0 \<le> i \<and> i < int (length xs) then Inr (xs ! nat i)
      else if - int (length xs) \<le> i \<and> i < 0 then Inr (xs ! nat (int (length xs) + i))
      else Inl (IndexError ListIndexOutOfRange))"

text \<open>
  \<open>Collection._get_by_index\<close>. Its own raise and the list's are the same \<open>IndexError\<close>
  class; the payload tells the two messages apart.
\<close>

definition get_by_index :: "('k, 'v) pydict \<Rightarrow> int \<Rightarrow> error + 'v" where
  "get_by_index fields key =
     (if key \<ge> int (length fields) then Inl (IndexError (CollectionIndexOutOfRange key))
      else list_getitem (dict_values fields) key)"

section \<open>Objects and the heap\<close>

text \<open>
  Every object lives in a heap and is named by a reference; an object carries its class,
  its \<open>__dict__\<close> (the per-instance storage the descriptors read and write) and, when it is
  a collection, its \<open>_fields\<close>. A stateful operation takes the heap and returns its outcome
  (\<open>Inl\<close> the exception raised) with the heap as the operation left it: what was written
  before an exception stays written.
\<close>

datatype cls =
  Schema | Table | View | Index | Trigger | Column | PrimaryKey | SQLite | Coll ccls | Object

record obj =
  o_cls :: cls
  o_dict :: "(string, pyval) pydict"
  o_fields :: "(pyval, pyval) pydict"

type_synonym heap = "obj list"

type_synonym 'a st = "heap \<Rightarrow> (error + 'a) \<times> heap"

definition st_return :: "'a \<Rightarrow> 'a st" where
  "st_return a = (\<lambda>h. (Inr a, h))"

definition st_raise :: "error \<Rightarrow> 'a st" where
  "st_raise e = (\<lambda>h. (Inl e, h))"

definition st_bind :: "'a st \<Rightarrow> ('a \<Rightarrow> 'b st) \<Rightarrow> 'b st" where
  "st_bind m f = (\<lambda>h. case m h of (Inl e, h') \<Rightarrow> (Inl e, h') | (Inr a, h') \<Rightarrow> f a h')"

definition st_lift :: "(heap \<Rightarrow> error + 'a) \<Rightarrow> 'a st" where
  "st_lift g = (\<lambda>h. (g h, h))"

definition alloc :: "cls \<Rightarrow> ref st" where
  "alloc c = (\<lambda>h. (Inr (length h), h @ [\<lparr>o_cls = c, o_dict = [], o_fields = []\<rparr>]))"

definition class_of :: "heap \<Rightarrow> pyval \<Rightarrow> cls option" where
  "class_of h v = (case v of PRef r \<Rightarrow> (if r < length h then Some (o_cls (h ! r)) else None) | _ \<Rightarrow> None)"

text \<open>\<open>instance.__dict__\<close>: only an object has one (\<open>None.__dict__\<close> is an \<open>AttributeError\<close>).\<close>

definition instance_dict :: "heap \<Rightarrow> pyval \<Rightarrow> error + (string, pyval) pydict" where
  "instance_dict h v =
     (case v of
        PRef r \<Rightarrow> (if r < length h then Inr (o_dict (h ! r)) else Inl AttributeError)
      | _ \<Rightarrow> Inl AttributeError)"

text \<open>\<open>d.get(k)\<close> with its default \<open>None\<close>, and \<open>d.pop(k, default)\<close>'s value.\<close>

definition py_get :: "('k, pyval) pydict \<Rightarrow> 'k \<Rightarrow> pyval" where
  "py_get d k = (case dict_get d k of Some v \<Rightarrow> v | None \<Rightarrow> PNone)"

definition pop_default :: "('k, pyval) pydict \<Rightarrow> 'k \<Rightarrow> pyval \<Rightarrow> pyval" where
  "pop_default d k dflt = (case dict_get d k of Some v \<Rightarrow> v | None \<Rightarrow> dflt)"

text \<open>
  \<open>Collection\<close> sets \<open>__hash__ = None\<close>, so a collection object cannot be a dictionary key:
  \<open>key in self._fields\<close> raises a \<open>TypeError\<close> on it. Every other value hashes, with
  equality of keys being identity for objects. \<open>_get_by_key\<close> tests for the key first.
\<close>

definition hashable :: "heap \<Rightarrow> pyval \<Rightarrow> bool" where
  "hashable h k = (case class_of h k of Some (Coll c) \<Rightarrow> False | _ \<Rightarrow> True)"

definition get_by_key :: "heap \<Rightarrow> (pyval, pyval) pydict \<Rightarrow> pyval \<Rightarrow> error + pyval" where
  "get_by_key h flds k =
     (if \<not> hashable h k then Inl TypeError
      else if \<not> dict_contains flds k then Inl MissingKeyError
      else (case dict_get flds k of Some v \<Rightarrow> Inr v | None \<Rightarrow> Inl MissingKeyError))"

definition set_dict_entry :: "ref \<Rightarrow> string \<Rightarrow> pyval \<Rightarrow> heap \<Rightarrow> heap" where
  "set_dict_entry r a v h = h[r := (h ! r)\<lparr>o_dict := dict_update (o_dict (h ! r)) a v\<rparr>]"

definition del_dict_entry :: "ref \<Rightarrow> string \<Rightarrow> heap \<Rightarrow> heap" where
  "del_dict_entry r a h = h[r := (h ! r)\<lparr>o_dict := dict_pop (o_dict (h ! r)) a\<rparr>]"

section \<open>Strings\<close>

text \<open>
  \<open>str.upper\<close>, \<open>str.lower\<close> and \<open>str.islower\<close> on the ASCII letters; the other characters
  have no case here.
\<close>

definition upper_char :: "char \<Rightarrow> char" where
  "upper_char c =
     (if 97 \<le> (of_char c :: nat) \<and> (of_char c :: nat) \<le> 122 then char_of (of_char c - 32 :: nat) else c)"

definition lower_char :: "char \<Rightarrow> char" where
  "lower_char c =
     (if 65 \<le> (of_char c :: nat) \<and> (of_char c :: nat) \<le> 90 then char_of (of_char c + 32 :: nat) else c)"

definition upper :: "string \<Rightarrow> string" where
  "upper s = map upper_char s"

definition lower :: "string \<Rightarrow> string" where
  "lower s = map lower_char s"

definition islower :: "string \<Rightarrow> bool" where
  "islower s = ((\<exists>c \<in> set s. lower_char c = c \<and> upper_char c \<noteq> c) \<and> lower s = s)"

definition single_quote :: "pyval \<Rightarrow> pyval" where
  "single_quote v = (case v of PStr s \<Rightarrow> PStr ([CHR 0x27] @ s @ [CHR 0x27]) | _ \<Rightarrow> v)"

section \<open>Managed attribute slots (descriptors.py)\<close>

text \<open>
  The descriptor classes. The three \<open>Toggle\<close> classes carry the fallback name they were
  created with (\<open>None\<close> by default). The attribute name a descriptor stores under is the
  one \<open>__set_name__\<close> received; it is passed along as \<open>a\<close>.
\<close>

datatype descriptor =
    AnyVar | StringVar | BoolVar
  | ImmutableVar | ImmutableStringVar | ImmutableBoolVar
  | ToggleVar "string option" | ToggleStringVar "string option"
  | SchemaName
  | SQLiteEngine "string option"

text \<open>Whether \<open>Immutable\<close> is among the bases of the descriptor's class.\<close>

fun immutable :: "descriptor \<Rightarrow> bool" where
  "immutable AnyVar = False"
| "immutable StringVar = False"
| "immutable BoolVar = False"
| "immutable _ = True"

fun fallback :: "descriptor \<Rightarrow> string option" where
  "fallback (ToggleVar fb) = fb"
| "fallback (ToggleStringVar fb) = fb"
| "fallback (SQLiteEngine fb) = fb"
| "fallback _ = None"

definition SCHEMA_NAME_LIST :: "string list" where
  "SCHEMA_NAME_LIST = [''main'', ''temp'']"

definition AnyVar_check_value :: "pyval \<Rightarrow> error + pyval" where
  "AnyVar_check_value v = (if v = PNone then Inl ValueError else Inr v)"

definition StringVar_check_value :: "pyval \<Rightarrow> error + pyval" where
  "StringVar_check_value v =
     (case v of
        PStr s \<Rightarrow> (if \<not> length s > 0 then Inl ValueError else Inr v)
      | _ \<Rightarrow> Inl ValueError)"

definition BoolVar_check_value :: "pyval \<Rightarrow> error + pyval" where
  "BoolVar_check_value v = (case v of PBool b \<Rightarrow> Inr v | _ \<Rightarrow> Inl ValueError)"

definition check_name :: "string \<Rightarrow> error + string" where
  "check_name v =
     (let name = lower v
      in if name \<notin> set SCHEMA_NAME_LIST then Inl SchemaNameError else Inr name)"

definition SchemaName_check_value :: "pyval \<Rightarrow> error + pyval" where
  "SchemaName_check_value v =
     (case StringVar_check_value v of
        Inl e \<Rightarrow> Inl e
      | Inr (PStr s) \<Rightarrow> (case check_name s of Inl e \<Rightarrow> Inl e | Inr n \<Rightarrow> Inr (PStr n))
      | Inr _ \<Rightarrow> Inl ValueError)"

definition isinstance :: "heap \<Rightarrow> pyval \<Rightarrow> cls \<Rightarrow> bool" where
  "isinstance h v c = (class_of h v = Some c)"

definition SQLiteEngine_check_value :: "heap \<Rightarrow> pyval \<Rightarrow> error + pyval" where
  "SQLiteEngine_check_value h v = (if \<not> isinstance h v SQLite then Inl SQLiteEngineError else Inr v)"

text \<open>\<open>self._check_value\<close>, resolved along the method resolution order of each class.\<close>

fun descriptor_check_value :: "descriptor \<Rightarrow> heap \<Rightarrow> pyval \<Rightarrow> error + pyval" where
  "descriptor_check_value AnyVar h v = AnyVar_check_value v"
| "descriptor_check_value ImmutableVar h v = AnyVar_check_value v"
| "descriptor_check_value (ToggleVar fb) h v = AnyVar_check_value v"
| "descriptor_check_value StringVar h v = StringVar_check_value v"
| "descriptor_check_value ImmutableStringVar h v = StringVar_check_value v"
| "descriptor_check_value (ToggleStringVar fb) h v = StringVar_check_value v"
| "descriptor_check_value BoolVar h v = BoolVar_check_value v"
| "descriptor_check_value ImmutableBoolVar h v = BoolVar_check_value v"
| "descriptor_check_value SchemaName h v = SchemaName_check_value v"
| "descriptor_check_value (SQLiteEngine fb) h v = SQLiteEngine_check_value h v"

text \<open>\<open>__get__\<close> on an instance: \<open>Descriptor.__get__\<close>, \<open>Toggle._get_value\<close>, \<open>SQLiteEngine._get_value\<close>.\<close>

definition Descriptor_get :: "heap \<Rightarrow> pyval \<Rightarrow> string \<Rightarrow> error + pyval" where
  "Descriptor_get h instance a =
     (case instance_dict h instance of Inl e \<Rightarrow> Inl e | Inr d \<Rightarrow> Inr (py_get d a))"

definition Toggle_get_value :: "heap \<Rightarrow> pyval \<Rightarrow> string \<Rightarrow> string option \<Rightarrow> error + pyval" where
  "Toggle_get_value h instance a fb =
     (case instance_dict h instance of
        Inl e \<Rightarrow> Inl e
      | Inr d \<Rightarrow>
          (case fb of
             None \<Rightarrow> Inr (py_get d a)
           | Some f \<Rightarrow> (if \<not> dict_contains d a then Inr (py_get d f) else Inr (py_get d a))))"

definition SQLiteEngine_get_value :: "heap \<Rightarrow> pyval \<Rightarrow> string \<Rightarrow> string option \<Rightarrow> error + pyval" where
  "SQLiteEngine_get_value h instance a fb =
     (case instance_dict h instance of
        Inl e \<Rightarrow> Inl e
      | Inr d \<Rightarrow>
          (case fb of
             None \<Rightarrow> Inr (py_get d a)
           | Some f \<Rightarrow>
               (let instance' = (if \<not> dict_contains d a then py_get d f else instance)
                in Descriptor_get h instance' a)))"

fun descriptor_get :: "descriptor \<Rightarrow> string \<Rightarrow> heap \<Rightarrow> ref \<Rightarrow> error + pyval" where
  "descriptor_get (ToggleVar fb) a h r = Toggle_get_value h (PRef r) a fb"
| "descriptor_get (ToggleStringVar fb) a h r = Toggle_get_value h (PRef r) a fb"
| "descriptor_get (SQLiteEngine fb) a h r = SQLiteEngine_get_value h (PRef r) a fb"
| "descriptor_get _ a h r = Descriptor_get h (PRef r) a"

text \<open>
  \<open>__set__\<close>: \<open>AnyVar.__set__\<close> validates first and hands the validated value to the next
  \<open>__set__\<close> of the resolution order, which is \<open>Immutable.__set__\<close> for the immutable
  classes and \<open>Descriptor.__set__\<close> otherwise. \<open>SQLiteEngine.__set__\<close> first replaces the
  instance by what its \<open>__dict__\<close> holds under the fallback name.
\<close>

definition Descriptor_set :: "string \<Rightarrow> pyval \<Rightarrow> pyval \<Rightarrow> unit st" where
  "Descriptor_set a instance v =
     (\<lambda>h. case instance_dict h instance of
             Inl e \<Rightarrow> (Inl e, h)
           | Inr d \<Rightarrow> (case instance of PRef r \<Rightarrow> (Inr (), set_dict_entry r a v h)
                                       | _ \<Rightarrow> (Inl AttributeError, h)))"

definition Immutable_set :: "string \<Rightarrow> pyval \<Rightarrow> pyval \<Rightarrow> unit st" where
  "Immutable_set a instance v =
     (\<lambda>h. case instance_dict h instance of
             Inl e \<Rightarrow> (Inl e, h)
           | Inr d \<Rightarrow> (if dict_contains d a then (Inl IllegalOperation, h)
                       else Descriptor_set a instance v h))"

definition AnyVar_set :: "descriptor \<Rightarrow> string \<Rightarrow> pyval \<Rightarrow> pyval \<Rightarrow> unit st" where
  "AnyVar_set d a instance v =
     (\<lambda>h. case descriptor_check_value d h v of
             Inl e \<Rightarrow> (Inl e, h)
           | Inr v' \<Rightarrow> (if immutable d then Immutable_set a instance v' h
                        else Descriptor_set a instance v' h))"

definition SQLiteEngine_set :: "string option \<Rightarrow> string \<Rightarrow> pyval \<Rightarrow> pyval \<Rightarrow> unit st" where
  "SQLiteEngine_set fb a instance v =
     (\<lambda>h. case fb of
             None \<Rightarrow> AnyVar_set (SQLiteEngine fb) a instance v h
           | Some f \<Rightarrow>
               (case instance_dict h instance of
                  Inl e \<Rightarrow> (Inl e, h)
                | Inr d \<Rightarrow> AnyVar_set (SQLiteEngine fb) a (py_get d f) v h))"

fun descriptor_set :: "descriptor \<Rightarrow> string \<Rightarrow> ref \<Rightarrow> pyval \<Rightarrow> unit st" where
  "descriptor_set (SQLiteEngine fb) a r v = SQLiteEngine_set fb a (PRef r) v"
| "descriptor_set d a r v = AnyVar_set d a (PRef r) v"

text \<open>\<open>__delete__\<close>: \<open>Immutable.__delete__\<close> raises; \<open>Descriptor.__delete__\<close> pops a present entry.\<close>

definition Descriptor_delete :: "string \<Rightarrow> ref \<Rightarrow> unit st" where
  "Descriptor_delete a r =
     (\<lambda>h. case instance_dict h (PRef r) of
             Inl e \<Rightarrow> (Inl e, h)
           | Inr d \<Rightarrow> (if dict_contains d a then (Inr (), del_dict_entry r a h) else (Inr (), h)))"

definition descriptor_delete :: "descriptor \<Rightarrow> string \<Rightarrow> ref \<Rightarrow> unit st" where
  "descriptor_delete d a r = (if immutable d then st_raise IllegalOperation else Descriptor_delete a r)"

section \<open>The classes of the schema graph (schema.py, constraints.py)\<close>

text \<open>
  The descriptors each class declares, by attribute name, with the name the descriptor
  stores under. In \<open>Table\<close> one descriptor object is bound to both \<open>c\<close> and \<open>columns\<close>; its
  \<open>__set_name__\<close> ran last for \<open>columns\<close>, so both names store under \<open>columns\<close>.
\<close>

definition Model_attrs :: "string \<Rightarrow> (descriptor \<times> string) option" where
  "Model_attrs n = (if n = ''name'' then Some (ImmutableStringVar, n) else None)"

definition BaseSchema_attrs :: "string \<Rightarrow> (descriptor \<times> string) option" where
  "BaseSchema_attrs n =
     (if n = ''name'' then Some (SchemaName, n)
      else if n = ''engine'' then Some (SQLiteEngine None, n)
      else if n = ''tables'' \<or> n = ''indexes'' \<or> n = ''views'' \<or> n = ''triggers''
        then Some (ImmutableVar, n)
      else Model_attrs n)"

definition BaseItem_attrs :: "string \<Rightarrow> (descriptor \<times> string) option" where
  "BaseItem_attrs n =
     (if n = ''key'' then Some (ToggleStringVar (Some ''name''), n)
      else if n = ''parent'' then Some (ImmutableVar, n)
      else Model_attrs n)"

definition SchemaItem_attrs :: "string \<Rightarrow> (descriptor \<times> string) option" where
  "SchemaItem_attrs n =
     (if n = ''parent'' then Some (ImmutableVar, n)
      else if n = ''schema'' then Some (ToggleVar (Some ''parent''), n)
      else if n = ''engine'' then Some (SQLiteEngine (Some ''schema''), n)
      else BaseItem_attrs n)"

definition Table_attrs :: "string \<Rightarrow> (descriptor \<times> string) option" where
  "Table_attrs n =
     (if n = ''row_id'' then Some (ImmutableBoolVar, n)
      else if n = ''c'' \<or> n = ''columns'' then Some (ImmutableVar, ''columns'')
      else SchemaItem_attrs n)"

definition Column_attrs :: "string \<Rightarrow> (descriptor \<times> string) option" where
  "Column_attrs n =
     (if n = ''type'' then Some (ImmutableStringVar, n)
      else if n = ''null'' \<or> n = ''unique'' \<or> n = ''index'' then Some (ImmutableBoolVar, n)
      else if n = ''primary'' \<or> n = ''table'' then Some (ImmutableVar, n)
      else BaseItem_attrs n)"

definition PrimaryKey_attrs :: "string \<Rightarrow> (descriptor \<times> string) option" where
  "PrimaryKey_attrs n =
     (if n = ''order'' \<or> n = ''on_conflict'' \<or> n = ''name'' \<or> n = ''__type_name__''
        then Some (ImmutableStringVar, n)
      else if n = ''autoincrement'' then Some (ImmutableBoolVar, n)
      else None)"

fun descriptor_of :: "cls \<Rightarrow> string \<Rightarrow> (descriptor \<times> string) option" where
  "descriptor_of Schema n = BaseSchema_attrs n"
| "descriptor_of Table n = Table_attrs n"
| "descriptor_of View n = SchemaItem_attrs n"
| "descriptor_of Index n = SchemaItem_attrs n"
| "descriptor_of Trigger n = SchemaItem_attrs n"
| "descriptor_of Column n = Column_attrs n"
| "descriptor_of PrimaryKey n = PrimaryKey_attrs n"
| "descriptor_of _ n = None"

text \<open>
  The type tag: \<open>__type_name__\<close> is a read-only property of \<open>Model\<close> (schema.py) and of
  \<open>Collection\<close> giving the lower-cased class name; in constraints.py it is a string slot,
  unset unless assigned.
\<close>

fun class_name :: "cls \<Rightarrow> string" where
  "class_name Schema = ''Schema''"
| "class_name Table = ''Table''"
| "class_name View = ''View''"
| "class_name Index = ''Index''"
| "class_name Trigger = ''Trigger''"
| "class_name Column = ''Column''"
| "class_name PrimaryKey = ''PrimaryKey''"
| "class_name SQLite = ''SQLite''"
| "class_name Object = ''object''"
| "class_name (Coll Collection) = ''Collection''"
| "class_name (Coll MixinCollection) = ''MixinCollection''"
| "class_name (Coll Tables) = ''Tables''"
| "class_name (Coll Indexes) = ''Indexes''"
| "class_name (Coll Views) = ''Views''"
| "class_name (Coll Triggers) = ''Triggers''"
| "class_name (Coll Columns) = ''Columns''"

fun has_type_name_property :: "cls \<Rightarrow> bool" where
  "has_type_name_property PrimaryKey = False"
| "has_type_name_property SQLite = False"
| "has_type_name_property Object = False"
| "has_type_name_property _ = True"

text \<open>
  Attribute access on an object: a descriptor or a property of the class first, then the
  instance's \<open>__dict__\<close>; a collection answers an unknown attribute through \<open>__getattr__\<close>,
  which is a lookup by key, and refuses every attribute assignment. Methods are not
  attributes here.
\<close>

definition py_getattr :: "heap \<Rightarrow> pyval \<Rightarrow> string \<Rightarrow> error + pyval" where
  "py_getattr h v n =
     (case v of
        PRef r \<Rightarrow>
          (if r < length h then
             (case descriptor_of (o_cls (h ! r)) n of
                Some (d, a) \<Rightarrow> descriptor_get d a h r
              | None \<Rightarrow>
                  (if n = ''__type_name__'' \<and> has_type_name_property (o_cls (h ! r))
                   then Inr (PStr (lower (class_name (o_cls (h ! r)))))
                   else (case o_cls (h ! r) of
                           Coll c \<Rightarrow> get_by_key h (o_fields (h ! r)) (PStr n)
                         | _ \<Rightarrow> (case dict_get (o_dict (h ! r)) n of
                                   Some x \<Rightarrow> Inr x
                                 | None \<Rightarrow> Inl AttributeError))))
           else Inl AttributeError)
      | _ \<Rightarrow> Inl AttributeError)"

definition py_setattr :: "pyval \<Rightarrow> string \<Rightarrow> pyval \<Rightarrow> unit st" where
  "py_setattr target n v =
     (\<lambda>h. case target of
             PRef r \<Rightarrow>
               (if r < length h then
                  (case o_cls (h ! r) of
                     Coll c \<Rightarrow> (Inl IllegalOperation, h)
                   | k \<Rightarrow> (case descriptor_of k n of
                             Some (d, a) \<Rightarrow> descriptor_set d a r v h
                           | None \<Rightarrow>
                               (if n = ''__type_name__'' \<and> has_type_name_property k
                                then (Inl AttributeError, h)
                                else (Inr (), set_dict_entry r n v h))))
                else (Inl AttributeError, h))
           | _ \<Rightarrow> (Inl AttributeError, h))"

text \<open>\<open>hasattr(arg, "__type_name__") and (arg.__type_name__ == target)\<close>\<close>

definition has_type_tag :: "heap \<Rightarrow> pyval \<Rightarrow> string \<Rightarrow> bool" where
  "has_type_tag h v target =
     (case py_getattr h v ''__type_name__'' of
        Inl e \<Rightarrow> False
      | Inr x \<Rightarrow> x = PStr target)"

text \<open>
  \<open>x == y\<close> as \<open>list.index\<close> evaluates it: identical objects and equal strings, booleans
  and \<open>None\<close> are equal; otherwise a collection on either side answers with
  \<open>Collection.__eq__\<close>, which walks \<open>zip_longest\<close> of its values and \<open>other.values()\<close>.
\<close>

fun zip_longest_is :: "pyval list \<Rightarrow> pyval list \<Rightarrow> bool" where
  "zip_longest_is [] [] = True"
| "zip_longest_is (x # xs) [] = (x = PNone \<and> zip_longest_is xs [])"
| "zip_longest_is [] (y # ys) = (PNone = y \<and> zip_longest_is [] ys)"
| "zip_longest_is (x # xs) (y # ys) = (x = y \<and> zip_longest_is xs ys)"

definition Collection_eq :: "heap \<Rightarrow> ref \<Rightarrow> pyval \<Rightarrow> error + bool" where
  "Collection_eq h self other =
     (case class_of h other of
        Some (Coll c) \<Rightarrow>
          (case other of
             PRef r \<Rightarrow> Inr (zip_longest_is (dict_values (o_fields (h ! self))) (dict_values (o_fields (h ! r))))
           | _ \<Rightarrow> Inl AttributeError)
      | _ \<Rightarrow> (case py_getattr h other ''values'' of Inl e \<Rightarrow> Inl AttributeError | Inr f \<Rightarrow> Inl TypeError))"

definition py_eq :: "heap \<Rightarrow> pyval \<Rightarrow> pyval \<Rightarrow> error + bool" where
  "py_eq h x y =
     (if x = y then Inr True
      else (case (class_of h x, x) of
              (Some (Coll c), PRef r) \<Rightarrow> Collection_eq h r y
            | _ \<Rightarrow> (case (class_of h y, y) of
                      (Some (Coll c), PRef r) \<Rightarrow> Collection_eq h r x
                    | _ \<Rightarrow> Inr False)))"

fun py_index :: "heap \<Rightarrow> pyval list \<Rightarrow> pyval \<Rightarrow> error + nat" where
  "py_index h [] a = Inl ValueError"
| "py_index h (x # xs) a =
     (case py_eq h x a of
        Inl e \<Rightarrow> Inl e
      | Inr True \<Rightarrow> Inr 0
      | Inr False \<Rightarrow> (case py_index h xs a of Inl e \<Rightarrow> Inl e | Inr i \<Rightarrow> Inr (Suc i)))"

text \<open>
  \<open>value in self._fields.values()\<close> compares the value with each stored one by \<open>==\<close>,
  stopping at the first that is equal or at the first comparison that raises.
\<close>

fun py_contains :: "heap \<Rightarrow> pyval list \<Rightarrow> pyval \<Rightarrow> error + bool" where
  "py_contains h [] v = Inr False"
| "py_contains h (x # xs) v =
     (case py_eq h x v of
        Inl e \<Rightarrow> Inl e
      | Inr True \<Rightarrow> Inr True
      | Inr False \<Rightarrow> py_contains h xs v)"

text \<open>
  \<open>hasattr\<close> turns an \<open>AttributeError\<close> into \<open>False\<close> and lets every other exception
  through; \<open>Collection._item_name\<close> is the \<open>key\<close> of a value that has one, else its
  \<open>name\<close>, else the value.
\<close>

definition py_hasattr :: "heap \<Rightarrow> pyval \<Rightarrow> string \<Rightarrow> error + bool" where
  "py_hasattr h v n =
     (case py_getattr h v n of
        Inr x \<Rightarrow> Inr True
      | Inl AttributeError \<Rightarrow> Inr False
      | Inl e \<Rightarrow> Inl e)"

definition item_name :: "heap \<Rightarrow> pyval \<Rightarrow> error + pyval" where
  "item_name h v =
     (case py_hasattr h v ''key'' of
        Inl e \<Rightarrow> Inl e
      | Inr True \<Rightarrow> py_getattr h v ''key''
      | Inr False \<Rightarrow>
          (case py_hasattr h v ''name'' of
             Inl e \<Rightarrow> Inl e
           | Inr True \<Rightarrow> py_getattr h v ''name''
           | Inr False \<Rightarrow> Inr v))"

text \<open>
  \<open>Collection._check_key\<close>, \<open>_check_value\<close> and \<open>_check_item\<close>, and \<open>MixinCollection.insert\<close>.
  An operation on a collection reads the heap, takes the \<open>_fields\<close> dictionary and returns
  the outcome (\<open>Inl\<close> the exception raised) together with the dictionary it leaves behind.
  The duplicate errors carry what their message interpolates: the key, and the item's
  name, which is computed while the message is built and may itself raise. The conversion
  of that key or name to text is left out; it is the identity on a string.
  In \<open>{self._check_key(key): self._check_value(value)}\<close> the key is checked first.
\<close>

definition check_key :: "heap \<Rightarrow> (pyval, pyval) pydict \<Rightarrow> pyval \<Rightarrow> error + pyval" where
  "check_key h flds k =
     (if \<not> hashable h k then Inl TypeError
      else if dict_contains flds k then Inl (DuplicateKeyError k)
      else Inr k)"

definition check_value :: "heap \<Rightarrow> (pyval, pyval) pydict \<Rightarrow> pyval \<Rightarrow> error + pyval" where
  "check_value h flds v =
     (case py_contains h (dict_values flds) v of
        Inl e \<Rightarrow> Inl e
      | Inr True \<Rightarrow> (case item_name h v of Inl e \<Rightarrow> Inl e | Inr nm \<Rightarrow> Inl (DuplicateItemError nm))
      | Inr False \<Rightarrow> Inr v)"

definition check_item :: "heap \<Rightarrow> (pyval, pyval) pydict \<Rightarrow> pyval \<Rightarrow> pyval \<Rightarrow> error + (pyval \<times> pyval)" where
  "check_item h flds k v =
     (case check_key h flds k of
        Inl e \<Rightarrow> Inl e
      | Inr k' \<Rightarrow> (case check_value h flds v of Inl e \<Rightarrow> Inl e | Inr v' \<Rightarrow> Inr (k', v')))"

definition insert_item :: "heap \<Rightarrow> ccls \<Rightarrow> pyval \<Rightarrow> pyval \<Rightarrow> (pyval, pyval) pydict
    \<Rightarrow> (error + unit) \<times> (pyval, pyval) pydict" where
  "insert_item h c k v flds =
     (if c = Collection then (Inl IllegalOperation, flds)
      else (case check_item h flds k v of
              Inl e \<Rightarrow> (Inl e, flds)
            | Inr (k', v') \<Rightarrow> (Inr (), dict_update flds k' v')))"

text \<open>
  \<open>Model._filter_items\<close> is a generator; \<open>on_item\<close> is what its consumer does with each
  item before asking for the next one. The first loop walks a copy of \<open>args\<close> and pops the
  tagged items out of \<open>args\<close>; the second walks a copy of \<open>kwargs\<close>, pops each tagged value
  and assigns the keyword as its \<open>key\<close>. The result is what the consumer collected, with
  the arguments left over.
\<close>

fun filter_args :: "string \<Rightarrow> (pyval \<Rightarrow> 'a st) \<Rightarrow> pyval list \<Rightarrow> pyval list
    \<Rightarrow> heap \<Rightarrow> (error + ('a list \<times> pyval list)) \<times> heap" where
  "filter_args target on_item [] args h = (Inr ([], args), h)"
| "filter_args target on_item (arg # cp) args h =
     (if has_type_tag h arg target then
        (case py_index h args arg of
           Inl e \<Rightarrow> (Inl e, h)
         | Inr idx \<Rightarrow>
             (case on_item (args ! idx) h of
                (Inl e, h1) \<Rightarrow> (Inl e, h1)
              | (Inr y, h1) \<Rightarrow>
                  (case filter_args target on_item cp (take idx args @ drop (Suc idx) args) h1 of
                     (Inl e, h2) \<Rightarrow> (Inl e, h2)
                   | (Inr (ys, rest), h2) \<Rightarrow> (Inr (y # ys, rest), h2))))
      else filter_args target on_item cp args h)"

fun filter_kwargs :: "string \<Rightarrow> (pyval \<Rightarrow> 'a st) \<Rightarrow> (string, pyval) pydict \<Rightarrow> (string, pyval) pydict
    \<Rightarrow> heap \<Rightarrow> (error + ('a list \<times> (string, pyval) pydict)) \<times> heap" where
  "filter_kwargs target on_item [] kwargs h = (Inr ([], kwargs), h)"
| "filter_kwargs target on_item ((key, v) # cp) kwargs h =
     (if has_type_tag h v target then
        (case py_setattr v ''key'' (PStr key) h of
           (Inl e, h1) \<Rightarrow> (Inl e, h1)
         | (Inr u, h1) \<Rightarrow>
             (case on_item v h1 of
                (Inl e, h2) \<Rightarrow> (Inl e, h2)
              | (Inr y, h2) \<Rightarrow>
                  (case filter_kwargs target on_item cp (dict_pop kwargs key) h2 of
                     (Inl e, h3) \<Rightarrow> (Inl e, h3)
                   | (Inr (ys, rest), h3) \<Rightarrow> (Inr (y # ys, rest), h3))))
      else filter_kwargs target on_item cp kwargs h)"

definition filter_items :: "string \<Rightarrow> (pyval \<Rightarrow> 'a st) \<Rightarrow> pyval list \<Rightarrow> (string, pyval) pydict
    \<Rightarrow> ('a list \<times> pyval list \<times> (string, pyval) pydict) st" where
  "filter_items target0 on_item args kwargs =
     (let target = (if \<not> islower target0 then lower target0 else target0)
      in st_bind (filter_args target on_item args args) (\<lambda>(ys, args').
         st_bind (filter_kwargs target on_item kwargs kwargs) (\<lambda>(zs, kwargs').
         st_return (ys @ zs, args', kwargs'))))"

text \<open>
  \<open>Model._check_params\<close>: the positional arguments and the keyword names left over. With
  any left, it raises; the message joins the quoted parameters, and \<open>str.join\<close> raises a
  \<open>TypeError\<close> on an item that is not a string.
\<close>

fun str_items :: "pyval list \<Rightarrow> string list option" where
  "str_items [] = Some []"
| "str_items (PStr s # vs) = (case str_items vs of None \<Rightarrow> None | Some ss \<Rightarrow> Some (s # ss))"
| "str_items (_ # vs) = None"

definition check_params :: "ref \<Rightarrow> pyval list \<Rightarrow> (string, pyval) pydict \<Rightarrow> unit st" where
  "check_params self args kwargs =
     (let params = args @ map PStr (dict_keys kwargs)
      in if length params > 0 then
           (case str_items (map single_quote params) of
              None \<Rightarrow> st_raise TypeError
            | Some quoted \<Rightarrow> st_raise (ArgumentError quoted))
         else st_return ())"

text \<open>\<open>Collection.__init__\<close> with \<open>_update_collection\<close> and \<open>_update_fields\<close>.\<close>

fun update_fields :: "heap \<Rightarrow> (pyval \<times> pyval) list \<Rightarrow> (pyval, pyval) pydict
    \<Rightarrow> (error + unit) \<times> (pyval, pyval) pydict" where
  "update_fields h [] f = (Inr (), f)"
| "update_fields h ((k, v) # m) f =
     (case check_item h f k v of
        Inl e \<Rightarrow> (Inl e, f)
      | Inr (k', v') \<Rightarrow> update_fields h m (dict_update f k' v'))"

definition update_collection :: "heap \<Rightarrow> (pyval \<times> pyval) list option \<Rightarrow> (string, pyval) pydict
    \<Rightarrow> (pyval, pyval) pydict \<Rightarrow> (error + unit) \<times> (pyval, pyval) pydict" where
  "update_collection h mapping kwargs f =
     (case (case mapping of None \<Rightarrow> (Inr (), f) | Some m \<Rightarrow> update_fields h m f) of
        (Inl e, f1) \<Rightarrow> (Inl e, f1)
      | (Inr u, f1) \<Rightarrow>
          (if length kwargs > 0 then update_fields h (map (\<lambda>(k, v). (PStr k, v)) kwargs) f1
           else (Inr (), f1)))"

definition Collection_init :: "ccls \<Rightarrow> (pyval \<times> pyval) list option \<Rightarrow> (string, pyval) pydict \<Rightarrow> ref st" where
  "Collection_init c mapping kwargs =
     st_bind (alloc (Coll c)) (\<lambda>r h.
       case update_collection h mapping kwargs (o_fields (h ! r)) of
         (Inl e, f') \<Rightarrow> (Inl e, h[r := (h ! r)\<lparr>o_fields := f'\<rparr>])
       | (Inr u, f') \<Rightarrow> (Inr r, h[r := (h ! r)\<lparr>o_fields := f'\<rparr>]))"

text \<open>
  \<open>coll.insert(key, value)\<close>: on a collection object it is the \<open>insert\<close> of its class;
  on anything else the attribute lookup fails, or finds a value that cannot be called.
\<close>

definition Collection_insert :: "pyval \<Rightarrow> pyval \<Rightarrow> pyval \<Rightarrow> unit st" where
  "Collection_insert coll k v =
     (\<lambda>h. case (class_of h coll, coll) of
             (Some (Coll c), PRef r) \<Rightarrow>
               (case insert_item h c k v (o_fields (h ! r)) of
                  (res, f') \<Rightarrow> (res, h[r := (h ! r)\<lparr>o_fields := f'\<rparr>]))
           | _ \<Rightarrow> (case py_getattr h coll ''insert'' of
                      Inl e \<Rightarrow> (Inl e, h)
                    | Inr f \<Rightarrow> (Inl TypeError, h)))"

text \<open>\<open>Model._set_child\<close>, \<open>BaseSchema._set_child\<close> and the four \<open>add_*\<close> methods.\<close>

definition Model_set_child :: "ref \<Rightarrow> pyval \<Rightarrow> unit st" where
  "Model_set_child self model = py_setattr model ''parent'' (PRef self)"

definition BaseSchema_set_child :: "ref \<Rightarrow> pyval \<Rightarrow> unit st" where
  "BaseSchema_set_child self model =
     st_bind (py_setattr model ''schema'' (PRef self)) (\<lambda>u. Model_set_child self model)"

definition add_child :: "string \<Rightarrow> ref \<Rightarrow> pyval \<Rightarrow> unit st" where
  "add_child owned self model =
     st_bind (BaseSchema_set_child self model) (\<lambda>u.
     st_bind (st_lift (\<lambda>h. py_getattr h (PRef self) owned)) (\<lambda>coll.
     st_bind (st_lift (\<lambda>h. py_getattr h model ''key'')) (\<lambda>k.
     Collection_insert coll k model)))"

definition add_table :: "ref \<Rightarrow> pyval \<Rightarrow> unit st" where
  "add_table = add_child ''tables''"

definition add_index :: "ref \<Rightarrow> pyval \<Rightarrow> unit st" where
  "add_index = add_child ''indexes''"

definition add_view :: "ref \<Rightarrow> pyval \<Rightarrow> unit st" where
  "add_view = add_child ''views''"

definition add_trigger :: "ref \<Rightarrow> pyval \<Rightarrow> unit st" where
  "add_trigger = add_child ''triggers''"

text \<open>
  \<open>Schema.__init__\<close>. The positional arguments are only turned into a list and handed to
  \<open>_check_params\<close>; the keyword \<open>engine\<close> is the one argument consumed.
\<close>

definition Schema_init :: "pyval \<Rightarrow> pyval list \<Rightarrow> (string, pyval) pydict \<Rightarrow> ref st" where
  "Schema_init name args kwargs =
     st_bind (alloc Schema) (\<lambda>self.
     st_bind (py_setattr (PRef self) ''name'' name) (\<lambda>u.
     st_bind (Collection_init Tables None []) (\<lambda>t.
     st_bind (py_setattr (PRef self) ''tables'' (PRef t)) (\<lambda>u.
     st_bind (Collection_init Indexes None []) (\<lambda>i.
     st_bind (py_setattr (PRef self) ''indexes'' (PRef i)) (\<lambda>u.
     st_bind (Collection_init Views None []) (\<lambda>v.
     st_bind (py_setattr (PRef self) ''views'' (PRef v)) (\<lambda>u.
     st_bind (Collection_init Triggers None []) (\<lambda>g.
     st_bind (py_setattr (PRef self) ''triggers'' (PRef g)) (\<lambda>u.
     st_bind (if dict_contains kwargs ''engine''
              then py_setattr (PRef self) ''engine'' (py_get kwargs ''engine'')
              else st_return ()) (\<lambda>u.
     st_bind (check_params self args (dict_pop kwargs ''engine'')) (\<lambda>u.
     st_return self))))))))))))"

text \<open>
  \<open>Table.__init__\<close> with \<open>_rezolve_columns\<close>, \<open>_filter_columns\<close> and \<open>Table._set_child\<close>.
  Only a schema has the method \<open>add_table\<close>.
\<close>

definition Table_set_child :: "ref \<Rightarrow> pyval \<Rightarrow> unit st" where
  "Table_set_child self model =
     st_bind (py_setattr model ''table'' (PRef self)) (\<lambda>u. Model_set_child self model)"

definition filter_columns :: "ref \<Rightarrow> pyval list \<Rightarrow> (string, pyval) pydict
    \<Rightarrow> ((pyval \<times> pyval) list \<times> pyval list \<times> (string, pyval) pydict) st" where
  "filter_columns self args kwargs =
     filter_items ''column''
       (\<lambda>column. st_bind (Table_set_child self column) (\<lambda>u.
                 st_bind (st_lift (\<lambda>h. py_getattr h column ''key'')) (\<lambda>k.
                 st_return (k, column))))
       args kwargs"

definition rezolve_columns :: "ref \<Rightarrow> pyval list \<Rightarrow> (string, pyval) pydict
    \<Rightarrow> (ref \<times> pyval list \<times> (string, pyval) pydict) st" where
  "rezolve_columns self args kwargs =
     st_bind (filter_columns self args kwargs) (\<lambda>(columns, args', kwargs').
     st_bind (Collection_init Columns (Some columns) []) (\<lambda>c.
     st_return (c, args', kwargs')))"

definition Table_init :: "pyval \<Rightarrow> pyval \<Rightarrow> pyval list \<Rightarrow> (string, pyval) pydict \<Rightarrow> ref st" where
  "Table_init name schema args kwargs =
     st_bind (alloc Table) (\<lambda>self.
     st_bind (py_setattr (PRef self) ''name'' name) (\<lambda>u.
     st_bind (\<lambda>h. case (class_of h schema, schema) of
                   (Some Schema, PRef s) \<Rightarrow> add_table s (PRef self) h
                 | _ \<Rightarrow> (case py_getattr h schema ''add_table'' of
                            Inl e \<Rightarrow> (Inl e, h)
                          | Inr f \<Rightarrow> (Inl TypeError, h))) (\<lambda>u.
     st_bind (rezolve_columns self args kwargs) (\<lambda>(c, args', kwargs').
     st_bind (py_setattr (PRef self) ''columns'' (PRef c)) (\<lambda>u.
     st_bind (py_setattr (PRef self) ''row_id'' (pop_default kwargs' ''row_id'' (PBool True))) (\<lambda>u.
     st_bind (if dict_contains (dict_pop kwargs' ''row_id'') ''engine''
              then py_setattr (PRef self) ''engine'' (py_get kwargs' ''engine'')
              else st_return ()) (\<lambda>u.
     st_bind (check_params self args' (dict_pop (dict_pop kwargs' ''row_id'') ''engine'')) (\<lambda>u.
     st_return self))))))))"

text \<open>\<open>Column.__init__\<close>.\<close>

definition Column_init :: "pyval \<Rightarrow> pyval \<Rightarrow> pyval list \<Rightarrow> (string, pyval) pydict \<Rightarrow> ref st" where
  "Column_init name type args kwargs =
     st_bind (alloc Column) (\<lambda>self.
     st_bind (py_setattr (PRef self) ''name'' name) (\<lambda>u.
     st_bind (py_setattr (PRef self) ''type'' type) (\<lambda>u.
     st_bind (py_setattr (PRef self) ''null'' (pop_default kwargs ''null'' (PBool True))) (\<lambda>u.
     st_bind (py_setattr (PRef self) ''primary'' (pop_default kwargs ''primary'' (PBool False))) (\<lambda>u.
     st_bind (py_setattr (PRef self) ''unique'' (pop_default kwargs ''unique'' (PBool False))) (\<lambda>u.
     st_bind (py_setattr (PRef self) ''index'' (pop_default kwargs ''index'' (PBool False))) (\<lambda>u.
     st_bind (check_params self args
                (dict_pop (dict_pop (dict_pop (dict_pop kwargs ''null'') ''primary'') ''unique'') ''index'')) (\<lambda>u.
     st_return self))))))))"

text \<open>\<open>OnConflict._check_resolution\<close> and \<open>PrimaryKey.__init__\<close>.\<close>

definition ON_CONFLICT :: "string list" where
  "ON_CONFLICT = [''ROLLBACK'', ''ABORT'', ''FAIL'', ''IGNORE'', ''REPLACE'']"

definition ORDER :: "string list" where
  "ORDER = [''ASC'', ''DESC'']"

definition check_resolution :: "pyval \<Rightarrow> error + pyval" where
  "check_resolution v =
     (case v of
        PStr s \<Rightarrow>
          (let algorithm = upper s
           in if algorithm \<notin> set ON_CONFLICT then Inl (ConstraintError ON_CONFLICT s)
              else Inr (PStr algorithm))
      | _ \<Rightarrow> Inl AttributeError)"

definition PrimaryKey_init :: "pyval \<Rightarrow> (string, pyval) pydict \<Rightarrow> ref st" where
  "PrimaryKey_init name kwargs =
     st_bind (alloc PrimaryKey) (\<lambda>self.
     st_bind (py_setattr (PRef self) ''name'' name) (\<lambda>u.
     st_bind (py_setattr (PRef self) ''order'' (pop_default kwargs ''order'' (PStr ''ASC''))) (\<lambda>u.
     st_bind (st_lift (\<lambda>h. check_resolution (pop_default kwargs ''on_conflict'' (PStr ''ABORT'')))) (\<lambda>r.
     st_bind (py_setattr (PRef self) ''on_conflict'' r) (\<lambda>u.
     st_bind (py_setattr (PRef self) ''autoincrement'' (pop_default kwargs ''autoincrement'' (PBool False))) (\<lambda>u.
     st_return self))))))"

section \<open>Export to a generic mapping (mixins.py, schema.py)\<close>












section \<open>The connection manager's path check (engines.py, utils.py)\<close>

text \<open>
  The file system is reached through \<open>os.path.realpath\<close>, \<open>os.path.dirname\<close>,
  \<open>os.path.exists\<close> and \<open>os.makedirs\<close>; the first three are parameters, and the functions
  return the calls they make of the last two and of the engine's \<open>connect\<close>, in order. \<open>parse_uri\<close> builds its result through the library's
  \<open>make_dataclass\<close>; only the \<open>file\<close> field is read, so it is a parameter as well.
\<close>

record os_env =
  realpath :: "string \<Rightarrow> string"
  dirname :: "string \<Rightarrow> string"
  path_exists :: "string \<Rightarrow> bool"

datatype fs_call = PathExists string | Makedirs string | Connect string

definition make_dirs :: "string \<Rightarrow> fs_call list" where
  "make_dirs path = [Makedirs path]"

definition ensure_folder :: "os_env \<Rightarrow> string \<Rightarrow> fs_call list" where
  "ensure_folder env path0 =
     (let path = dirname env (realpath env path0)
      in PathExists path # (if \<not> path_exists env path then make_dirs path else []))"

definition startswith :: "string \<Rightarrow> string \<Rightarrow> bool" where
  "startswith s pre = (take (length pre) s = pre)"

definition get_file_path :: "os_env \<Rightarrow> (string \<Rightarrow> error + string) \<Rightarrow> string \<Rightarrow> bool \<Rightarrow> error + string" where
  "get_file_path env parse_uri_file database uri =
     (if uri \<and> startswith database ''file:''
      then (case parse_uri_file database of Inl e \<Rightarrow> Inl e | Inr f \<Rightarrow> Inr (realpath env f))
      else Inr (realpath env database))"

text \<open>
  The engine object: what \<open>__init__\<close> stores, and whether a connection is attached.
  \<open>acquire\<close> checks the path and connects; \<open>__enter__\<close> acquires when no connection is
  attached; \<open>close\<close> releases the connection and deletes the attribute.
\<close>

record engine =
  e_database :: string
  e_uri :: bool
  e_ensure_folder :: bool
  e_file_path :: string
  e_connected :: bool

definition check_path :: "os_env \<Rightarrow> engine \<Rightarrow> string \<Rightarrow> fs_call list" where
  "check_path env self file_path =
     (if e_ensure_folder self \<and> file_path \<noteq> '':memory:'' then ensure_folder env file_path else [])"

definition acquire :: "os_env \<Rightarrow> engine \<Rightarrow> fs_call list" where
  "acquire env self = check_path env self (e_file_path self) @ [Connect (e_database self)]"

definition SQLite_init :: "os_env \<Rightarrow> (string \<Rightarrow> error + string) \<Rightarrow> string \<Rightarrow> bool \<Rightarrow> bool
    \<Rightarrow> error + (engine \<times> fs_call list)" where
  "SQLite_init env parse_uri_file database uri ensure =
     (case get_file_path env parse_uri_file database uri of
        Inl e \<Rightarrow> Inl e
      | Inr fp \<Rightarrow>
          (let self = \<lparr>e_database = database, e_uri = uri, e_ensure_folder = ensure,
                       e_file_path = fp, e_connected = False\<rparr>
           in Inr (self\<lparr>e_connected := True\<rparr>, acquire env self)))"

definition engine_close :: "engine \<Rightarrow> engine" where
  "engine_close self = (if e_connected self then self\<lparr>e_connected := False\<rparr> else self)"

definition engine_enter :: "os_env \<Rightarrow> engine \<Rightarrow> engine \<times> fs_call list" where
  "engine_enter env self =
     (if \<not> e_connected self then (self\<lparr>e_connected := True\<rparr>, acquire env self) else (self, []))"

text \<open>
  \<open>os.path\<close> on POSIX for a path without symbolic links, dot segments or doubled slashes,
  in a process whose working directory is \<open>cwd\<close>: \<open>realpath\<close> makes a relative path
  absolute, \<open>dirname\<close> cuts after the last slash and strips the trailing slashes of a head
  that is not all slashes. \<open>dirs\<close> are the directories that exist.
\<close>

definition posix_realpath :: "string \<Rightarrow> string \<Rightarrow> string" where
  "posix_realpath cwd p = (if startswith p ''/'' then p else cwd @ ''/'' @ p)"

definition posix_dirname :: "string \<Rightarrow> string" where
  "posix_dirname p =
     (let head = rev (dropWhile (\<lambda>c. c \<noteq> CHR ''/'') (rev p))
      in if head \<noteq> [] \<and> head \<noteq> replicate (length head) (CHR ''/'')
         then rev (dropWhile (\<lambda>c. c = CHR ''/'') (rev head)) else head)"

definition posix_env :: "string \<Rightarrow> string list \<Rightarrow> os_env" where
  "posix_env cwd dirs =
     \<lparr>realpath = posix_realpath cwd, dirname = posix_dirname, path_exists = (\<lambda>p. p \<in> set dirs)\<rparr>"



section \<open>Example object graphs\<close>

text \<open>
  An engine object, then \<open>Schema("main")\<close>, \<open>Table("table_1", schema)\<close> and
  \<open>Table("table_2", schema)\<close>; and the same graph after \<open>table_1.engine = engine\<close>.
\<close>

definition example_heap :: heap where
  "example_heap =
     snd (Table_init (PStr ''table_2'') (PRef 1) [] []
       (snd (Table_init (PStr ''table_1'') (PRef 1) [] []
         (snd (Schema_init (PStr ''main'') [] []
           (snd (alloc SQLite [])))))))"

text \<open>\<open>tables = Tables(); columns = Columns(); tables.insert("a", columns)\<close>\<close>

definition nested_heap :: heap where
  "nested_heap =
     snd (Collection_insert (PRef 0) (PStr ''a'') (PRef 1)
       (snd (Collection_init Columns None []
         (snd (Collection_init Tables None [] [])))))"

definition engine_heap :: heap where
  "engine_heap = snd (py_setattr (PRef 6) ''engine'' (PRef 0) example_heap)"






section \<open>The example object graphs, evaluated\<close>

lemma example_heap_eq:
  "example_heap =
    [\<lparr>o_cls = SQLite, o_dict = [], o_fields = []\<rparr>,
     \<lparr>o_cls = Schema,
        o_dict = [(''name'', PStr ''main''), (''tables'', PRef 2), (''indexes'', PRef 3),
                  (''views'', PRef 4), (''triggers'', PRef 5)],
        o_fields = []\<rparr>,
     \<lparr>o_cls = Coll Tables, o_dict = [],
        o_fields = [(PStr ''table_1'', PRef 6), (PStr ''table_2'', PRef 8)]\<rparr>,
     \<lparr>o_cls = Coll Indexes, o_dict = [], o_fields = []\<rparr>,
     \<lparr>o_cls = Coll Views, o_dict = [], o_fields = []\<rparr>,
     \<lparr>o_cls = Coll Triggers, o_dict = [], o_fields = []\<rparr>,
     \<lparr>o_cls = Table,
        o_dict = [(''name'', PStr ''table_1''), (''schema'', PRef 1), (''parent'', PRef 1),
                  (''columns'', PRef 7), (''row_id'', PBool True)],
        o_fields = []\<rparr>,
     \<lparr>o_cls = Coll Columns, o_dict = [], o_fields = []\<rparr>,
     \<lparr>o_cls = Table,
        o_dict = [(''name'', PStr ''table_2''), (''schema'', PRef 1), (''parent'', PRef 1),
                  (''columns'', PRef 9), (''row_id'', PBool True)],
        o_fields = []\<rparr>,
     \<lparr>o_cls = Coll Columns, o_dict = [], o_fields = []\<rparr>]"
  unfolding example_heap_def by code_simp

lemma engine_heap_eq:
  "engine_heap =
    [\<lparr>o_cls = SQLite, o_dict = [], o_fields = []\<rparr>,
     \<lparr>o_cls = Schema,
        o_dict = [(''name'', PStr ''main''), (''tables'', PRef 2), (''indexes'', PRef 3),
                  (''views'', PRef 4), (''triggers'', PRef 5), (''engine'', PRef 0)],
        o_fields = []\<rparr>,
     \<lparr>o_cls = Coll Tables, o_dict = [],
        o_fields = [(PStr ''table_1'', PRef 6), (PStr ''table_2'', PRef 8)]\<rparr>,
     \<lparr>o_cls = Coll Indexes, o_dict = [], o_fields = []\<rparr>,
     \<lparr>o_cls = Coll Views, o_dict = [], o_fields = []\<rparr>,
     \<lparr>o_cls = Coll Triggers, o_dict = [], o_fields = []\<rparr>,
     \<lparr>o_cls = Table,
        o_dict = [(''name'', PStr ''table_1''), (''schema'', PRef 1), (''parent'', PRef 1),
                  (''columns'', PRef 7), (''row_id'', PBool True)],
        o_fields = []\<rparr>,
     \<lparr>o_cls = Coll Columns, o_dict = [], o_fields = []\<rparr>,
     \<lparr>o_cls = Table,
        o_dict = [(''name'', PStr ''table_2''), (''schema'', PRef 1), (''parent'', PRef 1),
                  (''columns'', PRef 9), (''row_id'', PBool True)],
        o_fields = []\<rparr>,
     \<lparr>o_cls = Coll Columns, o_dict = [], o_fields = []\<rparr>]"
  unfolding engine_heap_def example_heap_def by code_simp

lemma nested_heap_eq:
  "nested_heap =
    [\<lparr>o_cls = Coll Tables, o_dict = [], o_fields = [(PStr ''a'', PRef 1)]\<rparr>,
     \<lparr>o_cls = Coll Columns, o_dict = [], o_fields = []\<rparr>]"
  unfolding nested_heap_def by code_simp

section \<open>Properties of keyed collections\<close>

lemma dict_get_update_same: "dict_get (dict_update d k v) k = Some v"
  by (induction d) (auto simp: dict_get_def)

lemma dict_update_keys:
  "map fst (dict_update d k v) = (if k \<in> set (map fst d) then map fst d else map fst d @ [k])"
  by (induction d) (auto split: if_splits)

lemma dict_contains_update: "dict_contains (dict_update d k v) k' = (k' = k \<or> dict_contains d k')"
  by (auto simp: dict_contains_def dict_update_keys)








text \<open>
  C9. A failed insertion leaves the collection as it was: whatever \<open>insert\<close> raises (the
  duplicate-key error and the duplicate-value error among it), the \<open>_fields\<close> dictionary
  after the call is the one before it, so its keys, values, their order and the length
  are unchanged.
\<close>

theorem insert_failure_atomic:
  "mutable c \<Longrightarrow> fst (insert_item h c k v f) = Inl e \<Longrightarrow>
     snd (insert_item h c k v f) = f \<and>
     dict_keys (snd (insert_item h c k v f)) = dict_keys f \<and>
     dict_values (snd (insert_item h c k v f)) = dict_values f \<and>
     length (snd (insert_item h c k v f)) = length f"
  by (auto simp: insert_item_def split: if_splits sum.splits prod.splits)

theorem insert_failure_atomic_witness:
  "mutable Tables \<and>
   fst (insert_item example_heap Tables (PStr ''table_2'') (PRef 6) (o_fields (example_heap ! 2)))
     = Inl (DuplicateKeyError (PStr ''table_2'')) \<and>
   snd (insert_item example_heap Tables (PStr ''table_2'') (PRef 6) (o_fields (example_heap ! 2)))
     = [(PStr ''table_1'', PRef 6), (PStr ''table_2'', PRef 8)] \<and>
   fst (insert_item example_heap Tables (PStr ''table_3'') (PRef 6) (o_fields (example_heap ! 2)))
     = Inl (DuplicateItemError (PStr ''table_1'')) \<and>
   snd (insert_item example_heap Tables (PStr ''table_3'') (PRef 6) (o_fields (example_heap ! 2)))
     = [(PStr ''table_1'', PRef 6), (PStr ''table_2'', PRef 8)] \<and>
   length (snd (insert_item example_heap Tables (PStr ''table_3'') (PRef 6) (o_fields (example_heap ! 2)))) = 2"
proof -
  have m: "mutable Tables"
    by (simp add: mutable_def)
  have a: "fst (insert_item example_heap Tables (PStr ''table_2'') (PRef 6) (o_fields (example_heap ! 2)))
     = Inl (DuplicateKeyError (PStr ''table_2''))"
    by code_simp
  have b: "fst (insert_item example_heap Tables (PStr ''table_3'') (PRef 6) (o_fields (example_heap ! 2)))
     = Inl (DuplicateItemError (PStr ''table_1''))"
    by code_simp
  have f: "o_fields (example_heap ! 2) = [(PStr ''table_1'', PRef 6), (PStr ''table_2'', PRef 8)]"
    by (simp add: example_heap_eq)
  show ?thesis
    using m a b insert_failure_atomic [OF m a] insert_failure_atomic [OF m b]
    by (simp add: f)
qed

text \<open>
  C10, as the code has it. Lookup by integer position raises the out-of-range error
  exactly for the positions greater than or equal to the size (the collection's own
  guard) and for the positions below \<open>-n\<close>, \<open>n\<close> the size (the list indexing behind the
  guard). A negative position \<open>i\<close> with \<open>-n \<le> i \<le> -1\<close> does not raise and returns the
  element at insertion position \<open>n + i\<close>; a position \<open>0 \<le> i < n\<close> returns the element at
  insertion position \<open>i\<close>.
\<close>

theorem get_by_index_range:
  "((\<exists>m. get_by_index f i = Inl (IndexError m)) = (i \<ge> int (length f) \<or> i < - int (length f))) \<and>
   (\<forall>e. get_by_index f i = Inl e \<longrightarrow> (\<exists>m. e = IndexError m)) \<and>
   (- int (length f) \<le> i \<and> i \<le> -1 \<longrightarrow>
      get_by_index f i = Inr (dict_values f ! nat (int (length f) + i))) \<and>
   (0 \<le> i \<and> i < int (length f) \<longrightarrow> get_by_index f i = Inr (dict_values f ! nat i))"
  by (auto simp: get_by_index_def list_getitem_def dict_values_def)

theorem get_by_index_range_witness:
  "- int (length [(''a'', PRef 3), (''b'', PRef 4)]) \<le> -2 \<and> (-2::int) \<le> -1 \<and>
   get_by_index [(''a'', PRef 3), (''b'', PRef 4)] (-2) = Inr (PRef 3) \<and>
   (0::int) \<le> 1 \<and> 1 < int (length [(''a'', PRef 3), (''b'', PRef 4)]) \<and>
   get_by_index [(''a'', PRef 3), (''b'', PRef 4)] 1 = Inr (PRef 4) \<and>
   get_by_index [(''a'', PRef 3), (''b'', PRef 4)] 2 = Inl (IndexError (CollectionIndexOutOfRange 2)) \<and>
   (\<exists>m. IndexError (CollectionIndexOutOfRange 2) = IndexError m)"
proof -
  have a: "get_by_index [(''a'', PRef 3), (''b'', PRef 4)] 2 = Inl (IndexError (CollectionIndexOutOfRange 2))"
    by (simp add: get_by_index_def)
  show ?thesis
    using a get_by_index_range [of "[(''a'', PRef 3), (''b'', PRef 4)]" "-2"]
      get_by_index_range [of "[(''a'', PRef 3), (''b'', PRef 4)]" "1"]
      get_by_index_range [of "[(''a'', PRef 3), (''b'', PRef 4)]" "2"]
    by (simp add: dict_values_def)
qed

text \<open>
  The claim as written fails below \<open>-n\<close>: in a collection of two entries the position
  \<open>-3\<close> is smaller than the size and yet raises the out-of-range error.
\<close>

theorem get_by_index_range_counterexample:
  "\<not> (-3 \<ge> int (length [(''a'', PRef 3), (''b'', PRef 4)])) \<and>
   get_by_index [(''a'', PRef 3), (''b'', PRef 4)] (-3) = Inl (IndexError ListIndexOutOfRange)"
  by (simp add: get_by_index_def list_getitem_def dict_values_def)

section \<open>Properties of the connection manager's path check\<close>

lemma posix_realpath_memory: "posix_realpath cwd '':memory:'' \<noteq> '':memory:''"
proof -
  have "CHR ''/'' \<in> set (posix_realpath cwd '':memory:'')"
    by (simp add: posix_realpath_def startswith_def)
  moreover have "CHR ''/'' \<notin> set '':memory:''"
    by simp
  ultimately show ?thesis
    by metis
qed

text \<open>
  C3. With the in-memory marker as the database and the ensure-folder option on, the
  stored file path is the marker made absolute, which is never the marker itself, so the
  guard of \<open>_check_path\<close> lets \<open>ensure_folder\<close> run: constructing the engine in
  \<open>/srv/app\<close> probes that directory, and acquiring again once the directory is gone
  creates it.
\<close>

theorem memory_database_reaches_ensure_folder:
  "(\<forall>cwd dirs pu uri ensure.
      \<exists>self calls. SQLite_init (posix_env cwd dirs) pu '':memory:'' uri ensure = Inr (self, calls) \<and>
        e_file_path self \<noteq> '':memory:'') \<and>
   SQLite_init (posix_env ''/srv/app'' [''/'', ''/srv'', ''/srv/app'']) pu '':memory:'' False True
     = Inr (\<lparr>e_database = '':memory:'', e_uri = False, e_ensure_folder = True,
              e_file_path = ''/srv/app/:memory:'', e_connected = True\<rparr>,
            [PathExists ''/srv/app'', Connect '':memory:'']) \<and>
   engine_enter (posix_env ''/srv/app'' [''/'', ''/srv''])
       (engine_close \<lparr>e_database = '':memory:'', e_uri = False, e_ensure_folder = True,
              e_file_path = ''/srv/app/:memory:'', e_connected = True\<rparr>)
     = (\<lparr>e_database = '':memory:'', e_uri = False, e_ensure_folder = True,
              e_file_path = ''/srv/app/:memory:'', e_connected = True\<rparr>,
        [PathExists ''/srv/app'', Makedirs ''/srv/app'', Connect '':memory:''])"
proof -
  have a: "\<forall>cwd dirs pu uri ensure.
      \<exists>self calls. SQLite_init (posix_env cwd dirs) pu '':memory:'' uri ensure = Inr (self, calls) \<and>
        e_file_path self \<noteq> '':memory:''"
    using posix_realpath_memory
    by (simp add: SQLite_init_def get_file_path_def startswith_def posix_env_def Let_def)
  have b: "SQLite_init (posix_env ''/srv/app'' [''/'', ''/srv'', ''/srv/app'']) pu '':memory:'' False True
     = Inr (\<lparr>e_database = '':memory:'', e_uri = False, e_ensure_folder = True,
              e_file_path = ''/srv/app/:memory:'', e_connected = True\<rparr>,
            [PathExists ''/srv/app'', Connect '':memory:''])"
    by (simp add: SQLite_init_def get_file_path_def startswith_def posix_env_def Let_def
        acquire_def check_path_def ensure_folder_def make_dirs_def posix_realpath_def
        posix_dirname_def)
  have c: "engine_enter (posix_env ''/srv/app'' [''/'', ''/srv''])
       (engine_close \<lparr>e_database = '':memory:'', e_uri = False, e_ensure_folder = True,
              e_file_path = ''/srv/app/:memory:'', e_connected = True\<rparr>)
     = (\<lparr>e_database = '':memory:'', e_uri = False, e_ensure_folder = True,
              e_file_path = ''/srv/app/:memory:'', e_connected = True\<rparr>,
        [PathExists ''/srv/app'', Makedirs ''/srv/app'', Connect '':memory:''])"
    by (simp add: engine_enter_def engine_close_def posix_env_def Let_def
        acquire_def check_path_def ensure_folder_def make_dirs_def posix_realpath_def
        posix_dirname_def startswith_def)
  from a b c show ?thesis
    by blast
qed

section \<open>Properties of the managed attribute slots\<close>

lemma dict_get_contains: "dict_get d k = Some v \<Longrightarrow> dict_contains d k"
  by (auto simp: dict_get_def dict_contains_def dest: map_of_SomeD intro: rev_image_eqI)

lemma py_get_Some: "dict_get d k = Some v \<Longrightarrow> py_get d k = v"
  by (simp add: py_get_def)

lemma py_get_absent: "\<not> dict_contains d k \<Longrightarrow> py_get d k = PNone"
proof -
  assume "\<not> dict_contains d k"
  then have "map_of d k = None"
    by (simp add: dict_contains_def map_of_eq_None_iff)
  then show ?thesis
    by (simp add: py_get_def dict_get_def)
qed

lemma dict_get_update_other: "k' \<noteq> k \<Longrightarrow> dict_get (dict_update d k v) k' = dict_get d k'"
  by (induction d) (auto simp: dict_get_def)

lemma py_get_update: "py_get (dict_update d k v) k' = (if k' = k then v else py_get d k')"
  by (simp add: py_get_def dict_get_update_same dict_get_update_other)

lemma length_set_dict_entry: "length (set_dict_entry r a v h) = length h"
  by (simp add: set_dict_entry_def)

lemma o_cls_set_dict_entry: "r' < length h \<Longrightarrow> o_cls (set_dict_entry r a v h ! r') = o_cls (h ! r')"
  by (cases "r' = r") (simp_all add: set_dict_entry_def)

lemma o_dict_set_dict_entry:
  "r' < length h \<Longrightarrow>
     o_dict (set_dict_entry r a v h ! r') = (if r' = r then dict_update (o_dict (h ! r)) a v else o_dict (h ! r'))"
  by (simp add: set_dict_entry_def)

text \<open>
  C2, as the code has it. The engine slot with a fallback name, unset on the instance,
  gives the value stored under the same attribute name in the object that the fallback
  name references (a table's unset \<open>engine\<close> is its schema's \<open>engine\<close>). The other slots
  with a fallback name (\<open>key\<close> falling back to \<open>name\<close>, \<open>schema\<close> falling back to \<open>parent\<close>),
  unset on the instance, give the instance's own value stored under the fallback name.
  When the local value is set, every slot with a fallback name gives the local value.
\<close>

theorem fallback_get:
  "r < length h \<Longrightarrow>
   (\<not> dict_contains (o_dict (h ! r)) a \<and> py_get (o_dict (h ! r)) fb = PRef s \<and> s < length h \<longrightarrow>
      descriptor_get (SQLiteEngine (Some fb)) a h r = Inr (py_get (o_dict (h ! s)) a)) \<and>
   (\<not> dict_contains (o_dict (h ! r)) a \<longrightarrow>
      descriptor_get (ToggleVar (Some fb)) a h r = Inr (py_get (o_dict (h ! r)) fb) \<and>
      descriptor_get (ToggleStringVar (Some fb)) a h r = Inr (py_get (o_dict (h ! r)) fb)) \<and>
   (fallback d = Some fb \<and> dict_get (o_dict (h ! r)) a = Some v \<longrightarrow>
      descriptor_get d a h r = Inr v)"
  by (cases d)
    (auto simp: SQLiteEngine_get_value_def Toggle_get_value_def Descriptor_get_def instance_dict_def
      Let_def dict_get_contains py_get_Some)

theorem fallback_get_witness:
  "8 < length engine_heap \<and>
   \<not> dict_contains (o_dict (engine_heap ! 8)) ''engine'' \<and>
   py_get (o_dict (engine_heap ! 8)) ''schema'' = PRef 1 \<and> 1 < length engine_heap \<and>
   descriptor_get (SQLiteEngine (Some ''schema'')) ''engine'' engine_heap 8 = Inr (PRef 0) \<and>
   \<not> dict_contains (o_dict (engine_heap ! 8)) ''key'' \<and>
   descriptor_get (ToggleStringVar (Some ''name'')) ''key'' engine_heap 8 = Inr (PStr ''table_2'') \<and>
   fallback (ToggleVar (Some ''parent'')) = Some ''parent'' \<and>
   dict_get (o_dict (engine_heap ! 8)) ''schema'' = Some (PRef 1) \<and>
   descriptor_get (ToggleVar (Some ''parent'')) ''schema'' engine_heap 8 = Inr (PRef 1)"
  using fallback_get [of 8 engine_heap "''engine''" "''schema''" 1 "ToggleVar (Some ''schema'')" "PNone"]
    fallback_get [of 8 engine_heap "''key''" "''name''" 1 "ToggleVar (Some ''name'')" "PNone"]
    fallback_get [of 8 engine_heap "''schema''" "''parent''" 1 "ToggleVar (Some ''parent'')" "PRef 1"]
  by (simp add: engine_heap_eq dict_contains_def py_get_def dict_get_def)

text \<open>
  The claim as written fails on the \<open>key\<close> slot of a column, whose fallback name is
  \<open>name\<close>: with \<open>key\<close> unset, \<open>column.key\<close> is the column's own name, while reading \<open>key\<close>
  from what \<open>name\<close> references (a string) is an \<open>AttributeError\<close>.
\<close>

theorem fallback_get_counterexample:
  "descriptor_of Column ''key'' = Some (ToggleStringVar (Some ''name''), ''key'') \<and>
   \<not> dict_contains (o_dict (snd (Column_init (PStr ''a'') (PStr ''TEXT'') [] [] []) ! 0)) ''key'' \<and>
   py_get (o_dict (snd (Column_init (PStr ''a'') (PStr ''TEXT'') [] [] []) ! 0)) ''name'' = PStr ''a'' \<and>
   py_getattr (snd (Column_init (PStr ''a'') (PStr ''TEXT'') [] [] [])) (PRef 0) ''key'' = Inr (PStr ''a'') \<and>
   py_getattr (snd (Column_init (PStr ''a'') (PStr ''TEXT'') [] [] [])) (PStr ''a'') ''key''
     = Inl AttributeError"
  by code_simp

text \<open>
  C5, as the code has it. The storage of an immutable slot is the instance's own
  \<open>__dict__\<close>, except for the engine slot with a fallback name, whose storage is the
  \<open>__dict__\<close> of the object that the fallback name references. \<open>set\<close> validates first: with
  no entry in the storage a valid value is stored and \<open>set\<close> succeeds; with an entry, a
  valid value raises the illegal-operation error; an invalid value raises the validation
  error whether there is an entry or not; a failed \<open>set\<close> changes nothing. \<open>delete\<close> raises
  the illegal-operation error. \<open>get\<close> with no local entry gives \<open>None\<close> for a slot without
  a fallback name, the instance's value under the fallback name for a slot with one, and
  the stored value of the referenced object for the engine slot.
\<close>

theorem immutable_slot:
  "immutable d \<Longrightarrow> r < length h \<Longrightarrow> t < length h \<Longrightarrow>
   (case d of SQLiteEngine (Some fb) \<Rightarrow> py_get (o_dict (h ! r)) fb = PRef t | _ \<Rightarrow> t = r) \<Longrightarrow>
   (\<not> dict_contains (o_dict (h ! t)) a \<and> descriptor_check_value d h v = Inr v' \<longrightarrow>
      descriptor_set d a r v h = (Inr (), set_dict_entry t a v' h) \<and>
      dict_get (o_dict (set_dict_entry t a v' h ! t)) a = Some v') \<and>
   (dict_contains (o_dict (h ! t)) a \<and> descriptor_check_value d h v = Inr v' \<longrightarrow>
      descriptor_set d a r v h = (Inl IllegalOperation, h)) \<and>
   (descriptor_check_value d h v = Inl e \<longrightarrow> descriptor_set d a r v h = (Inl e, h)) \<and>
   descriptor_delete d a r h = (Inl IllegalOperation, h) \<and>
   (\<not> dict_contains (o_dict (h ! r)) a \<longrightarrow>
      descriptor_get d a h r =
        (case d of
           SQLiteEngine (Some fb) \<Rightarrow> Inr (py_get (o_dict (h ! t)) a)
         | _ \<Rightarrow> (case fallback d of None \<Rightarrow> Inr PNone | Some fb \<Rightarrow> Inr (py_get (o_dict (h ! r)) fb))))"
  by (cases d)
    (auto simp: SQLiteEngine_set_def AnyVar_set_def Immutable_set_def Descriptor_set_def
      descriptor_delete_def st_raise_def instance_dict_def set_dict_entry_def dict_get_update_same
      SQLiteEngine_get_value_def Toggle_get_value_def Descriptor_get_def Let_def py_get_absent
      split: option.splits)

theorem immutable_slot_witness:
  "immutable (ToggleStringVar (Some ''name'')) \<and> immutable ImmutableStringVar \<and>
   6 < length example_heap \<and>
   \<not> dict_contains (o_dict (example_heap ! 6)) ''key'' \<and>
   descriptor_check_value (ToggleStringVar (Some ''name'')) example_heap (PStr ''t1'') = Inr (PStr ''t1'') \<and>
   descriptor_get (ToggleStringVar (Some ''name'')) ''key'' example_heap 6 = Inr (PStr ''table_1'') \<and>
   descriptor_set (ToggleStringVar (Some ''name'')) ''key'' 6 (PStr ''t1'') example_heap
     = (Inr (), set_dict_entry 6 ''key'' (PStr ''t1'') example_heap) \<and>
   dict_contains (o_dict (example_heap ! 6)) ''name'' \<and>
   descriptor_check_value ImmutableStringVar example_heap (PStr ''other'') = Inr (PStr ''other'') \<and>
   descriptor_set ImmutableStringVar ''name'' 6 (PStr ''other'') example_heap
     = (Inl IllegalOperation, example_heap) \<and>
   descriptor_check_value ImmutableStringVar example_heap (PStr []) = Inl ValueError \<and>
   descriptor_set ImmutableStringVar ''name'' 6 (PStr []) example_heap = (Inl ValueError, example_heap) \<and>
   descriptor_delete ImmutableStringVar ''name'' 6 example_heap = (Inl IllegalOperation, example_heap)"
  using immutable_slot [of "ToggleStringVar (Some ''name'')" 6 example_heap 6 "''key''"
      "PStr ''t1''" "PStr ''t1''" ValueError]
    immutable_slot [of ImmutableStringVar 6 example_heap 6 "''name''"
      "PStr ''other''" "PStr ''other''" ValueError]
    immutable_slot [of ImmutableStringVar 6 example_heap 6 "''name''" "PStr []" "PStr []" ValueError]
  by (simp add: example_heap_eq dict_contains_def py_get_def dict_get_def StringVar_check_value_def)

text \<open>
  The claim as written fails on a second \<open>set\<close> with a value that does not validate: the
  column's \<open>name\<close> is set by its constructor, and setting it again to the empty string
  raises the validation error, not the illegal-operation error.
\<close>

theorem immutable_slot_counterexample:
  "descriptor_of Column ''name'' = Some (ImmutableStringVar, ''name'') \<and>
   immutable ImmutableStringVar \<and>
   dict_contains (o_dict (snd (Column_init (PStr ''a'') (PStr ''TEXT'') [] [] []) ! 0)) ''name'' \<and>
   fst (py_setattr (PRef 0) ''name'' (PStr [])
          (snd (Column_init (PStr ''a'') (PStr ''TEXT'') [] [] []))) = Inl ValueError"
  by code_simp

text \<open>
  C8. On an item whose \<open>engine\<close> slot has the fallback name \<open>schema\<close>, setting \<open>engine\<close>
  writes into the \<open>__dict__\<close> of the schema object the item references and leaves the
  item's own \<open>__dict__\<close> as it was, without an \<open>engine\<close> entry. Every item \<open>j\<close> of the same
  schema then reads that value as its \<open>engine\<close>, and setting \<open>engine\<close> on any of them raises
  the illegal-operation error, because the schema's storage holds an entry.
\<close>

theorem engine_stored_in_schema:
  assumes i: "i < length h" and j: "j < length h" and s: "s < length h"
    and di: "descriptor_of (o_cls (h ! i)) ''engine'' = Some (SQLiteEngine (Some ''schema''), ''engine'')"
    and dj: "descriptor_of (o_cls (h ! j)) ''engine'' = Some (SQLiteEngine (Some ''schema''), ''engine'')"
    and si: "py_get (o_dict (h ! i)) ''schema'' = PRef s"
    and sj: "py_get (o_dict (h ! j)) ''schema'' = PRef s"
    and ne: "s \<noteq> i"
    and ei: "\<not> dict_contains (o_dict (h ! i)) ''engine''"
    and ej: "\<not> dict_contains (o_dict (h ! j)) ''engine''"
    and es: "\<not> dict_contains (o_dict (h ! s)) ''engine''"
    and v: "isinstance h v SQLite"
  shows "\<exists>h'. py_setattr (PRef i) ''engine'' v h = (Inr (), h') \<and>
           o_dict (h' ! i) = o_dict (h ! i) \<and>
           \<not> dict_contains (o_dict (h' ! i)) ''engine'' \<and>
           dict_get (o_dict (h' ! s)) ''engine'' = Some v \<and>
           py_getattr h' (PRef j) ''engine'' = Inr v \<and>
           (\<forall>v2. isinstance h' v2 SQLite \<longrightarrow>
              py_setattr (PRef j) ''engine'' v2 h' = (Inl IllegalOperation, h'))"
proof -
  define h' where "h' = set_dict_entry s ''engine'' v h"
  have ci: "\<And>c. o_cls (h ! i) \<noteq> Coll c" and cj: "\<And>c. o_cls (h ! j) \<noteq> Coll c"
    using di dj by auto
  have set_i: "py_setattr (PRef i) ''engine'' v h = (Inr (), h')"
    using i s di si es v ci
    by (auto simp: py_setattr_def SQLiteEngine_set_def AnyVar_set_def Immutable_set_def
        Descriptor_set_def SQLiteEngine_check_value_def instance_dict_def h'_def
        split: cls.splits)
  have len: "length h' = length h"
    by (simp add: h'_def length_set_dict_entry)
  have cls: "\<And>r. r < length h \<Longrightarrow> o_cls (h' ! r) = o_cls (h ! r)"
    by (simp add: h'_def o_cls_set_dict_entry)
  have dct: "\<And>r. r < length h \<Longrightarrow>
      o_dict (h' ! r) = (if r = s then dict_update (o_dict (h ! s)) ''engine'' v else o_dict (h ! r))"
    by (simp add: h'_def o_dict_set_dict_entry)
  have keep_i: "o_dict (h' ! i) = o_dict (h ! i)"
    using i ne by (simp add: dct)
  have stored: "dict_get (o_dict (h' ! s)) ''engine'' = Some v"
    using s by (simp add: dct dict_get_update_same)
  have sj': "py_get (o_dict (h' ! j)) ''schema'' = PRef s"
    using j sj by (cases "j = s") (simp_all add: dct py_get_update)
  have cont_s: "dict_contains (o_dict (h' ! s)) ''engine''"
    using s by (simp add: dct dict_contains_update)
  have get_j: "py_getattr h' (PRef j) ''engine'' = Inr v"
  proof (cases "j = s")
    case True
    then show ?thesis
      using j dj cont_s stored
      by (simp add: py_getattr_def len cls SQLiteEngine_get_value_def instance_dict_def
          Descriptor_get_def py_get_Some)
  next
    case False
    then have "\<not> dict_contains (o_dict (h' ! j)) ''engine''"
      using j ej by (simp add: dct)
    then show ?thesis
      using j s dj sj' stored
      by (simp add: py_getattr_def len cls SQLiteEngine_get_value_def instance_dict_def
          Descriptor_get_def py_get_Some)
  qed
  have set_j: "py_setattr (PRef j) ''engine'' v2 h' = (Inl IllegalOperation, h')"
    if "isinstance h' v2 SQLite" for v2
    using that j s dj sj' cont_s cj
    by (auto simp: py_setattr_def len cls SQLiteEngine_set_def AnyVar_set_def Immutable_set_def
        SQLiteEngine_check_value_def instance_dict_def split: cls.splits)
  show ?thesis
    using set_i keep_i ei stored get_j set_j by auto
qed

theorem engine_stored_in_schema_witness:
  "6 < length example_heap \<and> 8 < length example_heap \<and> 1 < length example_heap \<and>
   descriptor_of (o_cls (example_heap ! 6)) ''engine'' = Some (SQLiteEngine (Some ''schema''), ''engine'') \<and>
   descriptor_of (o_cls (example_heap ! 8)) ''engine'' = Some (SQLiteEngine (Some ''schema''), ''engine'') \<and>
   py_get (o_dict (example_heap ! 6)) ''schema'' = PRef 1 \<and>
   py_get (o_dict (example_heap ! 8)) ''schema'' = PRef 1 \<and>
   \<not> dict_contains (o_dict (example_heap ! 6)) ''engine'' \<and>
   \<not> dict_contains (o_dict (example_heap ! 8)) ''engine'' \<and>
   \<not> dict_contains (o_dict (example_heap ! 1)) ''engine'' \<and>
   isinstance example_heap (PRef 0) SQLite \<and>
   py_setattr (PRef 6) ''engine'' (PRef 0) example_heap = (Inr (), engine_heap) \<and>
   o_dict (engine_heap ! 6) = o_dict (example_heap ! 6) \<and>
   dict_get (o_dict (engine_heap ! 1)) ''engine'' = Some (PRef 0) \<and>
   py_getattr engine_heap (PRef 8) ''engine'' = Inr (PRef 0) \<and>
   py_setattr (PRef 8) ''engine'' (PRef 0) engine_heap = (Inl IllegalOperation, engine_heap)"
proof -
  have hyps:
    "6 < length example_heap" "8 < length example_heap" "1 < length example_heap"
    "descriptor_of (o_cls (example_heap ! 6)) ''engine'' = Some (SQLiteEngine (Some ''schema''), ''engine'')"
    "descriptor_of (o_cls (example_heap ! 8)) ''engine'' = Some (SQLiteEngine (Some ''schema''), ''engine'')"
    "py_get (o_dict (example_heap ! 6)) ''schema'' = PRef 1"
    "py_get (o_dict (example_heap ! 8)) ''schema'' = PRef 1"
    "(1::nat) \<noteq> 6"
    "\<not> dict_contains (o_dict (example_heap ! 6)) ''engine''"
    "\<not> dict_contains (o_dict (example_heap ! 8)) ''engine''"
    "\<not> dict_contains (o_dict (example_heap ! 1)) ''engine''"
    "isinstance example_heap (PRef 0) SQLite"
    by (simp_all add: example_heap_eq Table_attrs_def SchemaItem_attrs_def py_get_def dict_get_def
        dict_contains_def isinstance_def class_of_def)
  from engine_stored_in_schema [OF hyps]
  obtain h' where h': "py_setattr (PRef 6) ''engine'' (PRef 0) example_heap = (Inr (), h')"
    and rest: "o_dict (h' ! 6) = o_dict (example_heap ! 6)"
      "dict_get (o_dict (h' ! 1)) ''engine'' = Some (PRef 0)"
      "py_getattr h' (PRef 8) ''engine'' = Inr (PRef 0)"
      "\<forall>v2. isinstance h' v2 SQLite \<longrightarrow>
          py_setattr (PRef 8) ''engine'' v2 h' = (Inl IllegalOperation, h')"
    by blast
  from h' have eq: "h' = engine_heap"
    by (simp add: engine_heap_def)
  have "isinstance engine_heap (PRef 0) SQLite"
    by (simp add: engine_heap_eq isinstance_def class_of_def)
  with rest h' eq hyps show ?thesis
    by simp
qed

section \<open>Properties of the constructors\<close>

lemma set_dict_entry_last:
  "set_dict_entry (length h) a v (h @ [x]) = h @ [x\<lparr>o_dict := dict_update (o_dict x) a v\<rparr>]"
  by (simp add: set_dict_entry_def)

lemmas exec_simps = st_bind_def st_return_def st_raise_def st_lift_def alloc_def py_setattr_def
  py_getattr_def AnyVar_set_def Immutable_set_def Descriptor_set_def instance_dict_def
  set_dict_entry_last dict_contains_def Descriptor_get_def py_get_def dict_get_def

text \<open>
  C7, as the code has it. The order of a primary key defaults to \<open>ASC\<close> and is validated
  only as a non-empty string: every non-empty string is accepted and stored as given, and
  a value that is not a non-empty string raises the validation error. The on-conflict
  algorithm is upper-cased and checked against the enumeration: a member is stored in
  upper case, anything else raises the constraint error that carries the allowed set.
\<close>

theorem PrimaryKey_order_not_validated:
  assumes "name = PStr nm" and "nm \<noteq> []"
  shows "(dict_get kwargs ''order'' = None \<longrightarrow> pop_default kwargs ''order'' (PStr ''ASC'') = PStr ''ASC'') \<and>
    (pop_default kwargs ''order'' (PStr ''ASC'') = PStr ord \<and> ord \<noteq> [] \<and>
     pop_default kwargs ''on_conflict'' (PStr ''ABORT'') = PStr c \<and> upper c \<in> set ON_CONFLICT \<and>
     pop_default kwargs ''autoincrement'' (PBool False) = PBool b \<longrightarrow>
       (\<exists>h'. PrimaryKey_init name kwargs h = (Inr (length h), h') \<and>
             py_getattr h' (PRef (length h)) ''order'' = Inr (PStr ord) \<and>
             py_getattr h' (PRef (length h)) ''on_conflict'' = Inr (PStr (upper c)))) \<and>
    (StringVar_check_value (pop_default kwargs ''order'' (PStr ''ASC'')) = Inl e \<longrightarrow>
       fst (PrimaryKey_init name kwargs h) = Inl ValueError) \<and>
    (pop_default kwargs ''order'' (PStr ''ASC'') = PStr ord \<and> ord \<noteq> [] \<and>
     pop_default kwargs ''on_conflict'' (PStr ''ABORT'') = PStr c \<and> upper c \<notin> set ON_CONFLICT \<longrightarrow>
       fst (PrimaryKey_init name kwargs h) = Inl (ConstraintError ON_CONFLICT c))"
proof -
  have A: "dict_get kwargs ''order'' = None \<Longrightarrow> pop_default kwargs ''order'' (PStr ''ASC'') = PStr ''ASC''"
    by (simp add: pop_default_def)
  have B: "\<exists>h'. PrimaryKey_init name kwargs h = (Inr (length h), h') \<and>
             py_getattr h' (PRef (length h)) ''order'' = Inr (PStr ord) \<and>
             py_getattr h' (PRef (length h)) ''on_conflict'' = Inr (PStr (upper c))"
    if "pop_default kwargs ''order'' (PStr ''ASC'') = PStr ord" "ord \<noteq> []"
     "pop_default kwargs ''on_conflict'' (PStr ''ABORT'') = PStr c" "upper c \<in> set ON_CONFLICT"
     "pop_default kwargs ''autoincrement'' (PBool False) = PBool b"
  proof -
    from that(4) have "upper c \<noteq> []"
      by (auto simp: ON_CONFLICT_def)
    with that assms show ?thesis
      by (simp add: PrimaryKey_init_def exec_simps PrimaryKey_attrs_def StringVar_check_value_def
          BoolVar_check_value_def check_resolution_def Let_def)
  qed
  have C: "fst (PrimaryKey_init name kwargs h) = Inl ValueError"
    if "StringVar_check_value (pop_default kwargs ''order'' (PStr ''ASC'')) = Inl e"
    using that assms
    by (auto simp: PrimaryKey_init_def exec_simps PrimaryKey_attrs_def StringVar_check_value_def
        split: pyval.splits if_splits)
  have D: "fst (PrimaryKey_init name kwargs h) = Inl (ConstraintError ON_CONFLICT c)"
    if "pop_default kwargs ''order'' (PStr ''ASC'') = PStr ord" "ord \<noteq> []"
     "pop_default kwargs ''on_conflict'' (PStr ''ABORT'') = PStr c" "upper c \<notin> set ON_CONFLICT"
    using that assms
    by (simp add: PrimaryKey_init_def exec_simps PrimaryKey_attrs_def StringVar_check_value_def
        check_resolution_def Let_def)
  from A B C D show ?thesis
    by blast
qed

theorem PrimaryKey_order_not_validated_witness:
  "PStr ''pk'' = PStr ''pk'' \<and> ''pk'' \<noteq> [] \<and>
   dict_get ([] :: (string, pyval) pydict) ''order'' = None \<and>
   pop_default [] ''order'' (PStr ''ASC'') = PStr ''ASC'' \<and>
   pop_default [(''order'', PStr ''SIDEWAYS''), (''on_conflict'', PStr ''ignore'')] ''order'' (PStr ''ASC'')
     = PStr ''SIDEWAYS'' \<and>
   upper ''ignore'' \<in> set ON_CONFLICT \<and>
   (\<exists>h'. PrimaryKey_init (PStr ''pk'') [(''order'', PStr ''SIDEWAYS''), (''on_conflict'', PStr ''ignore'')] []
            = (Inr 0, h') \<and>
         py_getattr h' (PRef 0) ''order'' = Inr (PStr ''SIDEWAYS'') \<and>
         py_getattr h' (PRef 0) ''on_conflict'' = Inr (PStr ''IGNORE'')) \<and>
   StringVar_check_value (pop_default [(''order'', PStr [])] ''order'' (PStr ''ASC'')) = Inl ValueError \<and>
   fst (PrimaryKey_init (PStr ''pk'') [(''order'', PStr [])] []) = Inl ValueError \<and>
   upper ''nothing'' \<notin> set ON_CONFLICT \<and>
   fst (PrimaryKey_init (PStr ''pk'') [(''on_conflict'', PStr ''nothing'')] [])
     = Inl (ConstraintError ON_CONFLICT ''nothing'')"
proof -
  have u: "upper ''ignore'' = ''IGNORE''" "upper ''ignore'' \<in> set ON_CONFLICT"
    "upper ''nothing'' \<notin> set ON_CONFLICT"
    by code_simp+
  show ?thesis
    using u
      PrimaryKey_order_not_validated [of "PStr ''pk''" "''pk''" "[]" "''ASC''" "''ABORT''" False "[]" ValueError]
      PrimaryKey_order_not_validated [of "PStr ''pk''" "''pk''"
        "[(''order'', PStr ''SIDEWAYS''), (''on_conflict'', PStr ''ignore'')]" "''SIDEWAYS''" "''ignore''"
        False "[]" ValueError]
      PrimaryKey_order_not_validated [of "PStr ''pk''" "''pk''" "[(''order'', PStr [])]" "''x''" "''ABORT''"
        False "[]" ValueError]
      PrimaryKey_order_not_validated [of "PStr ''pk''" "''pk''" "[(''on_conflict'', PStr ''nothing'')]"
        "''ASC''" "''nothing''" False "[]" ValueError]
    by (simp add: pop_default_def dict_get_def StringVar_check_value_def)
qed

text \<open>
  The claim as written fails on an order outside the enumeration: it is accepted.
\<close>

theorem PrimaryKey_order_not_validated_counterexample:
  "''SIDEWAYS'' \<notin> set ORDER \<and>
   fst (PrimaryKey_init (PStr ''pk'') [(''order'', PStr ''SIDEWAYS'')] []) = Inr 0 \<and>
   py_getattr (snd (PrimaryKey_init (PStr ''pk'') [(''order'', PStr ''SIDEWAYS'')] [])) (PRef 0) ''order''
     = Inr (PStr ''SIDEWAYS'')"
  by code_simp












section \<open>Properties of the export\<close>









end
